theory Spec2Isabelle
  imports Complex_Main "HOL-Library.AList"
begin

section \<open>Tool-execution coordination of the Claude agent workflow helpers\<close>

text \<open>
  A shallow embedding of \<^verbatim>\<open>temporalio/contrib/claude_agent/_tool_decorator.py\<close> and
  \<^verbatim>\<open>temporalio/contrib/claude_agent/_workflow_helpers.py\<close>.

  The workflow runs on a single-threaded cooperative scheduler, so every entry point is a
  function from the world before the call to an outcome: the call returned a value, it
  raised an exception, or it parked on an \<^verbatim>\<open>await\<close> that nothing inside the call can
  release. Each outcome carries the world as the call left it, because Python keeps
  every assignment made before a raise or a suspension.
\<close>

subsection \<open>Values\<close>

text \<open>
  \<^verbatim>\<open>dict[str, Any]\<close> payloads (messages, request dictionaries, tool inputs) are JSON-like
  values. A dictionary whose order can be observed is an association list.
\<close>

datatype json =
    JNull
  | JBool bool
  | JInt int
  | JStr string
  | JList "json list"
  | JDict "(string \<times> json) list"

type_synonym pydict = "(string \<times> json) list"

subsection \<open>Exceptions\<close>

text \<open>
  What user code (a handler, a property getter) raises. The modelled code tells three
  kinds apart: \<^verbatim>\<open>ToolDenied(message, interrupt)\<close>, the class of lines 11-34 of the decorator
  module, which derives from \<^verbatim>\<open>Exception\<close>; any other exception derived from \<^verbatim>\<open>Exception\<close>;
  and an exception that derives from \<^verbatim>\<open>BaseException\<close> only (\<^verbatim>\<open>asyncio.CancelledError\<close>,
  \<^verbatim>\<open>KeyboardInterrupt\<close>, \<^verbatim>\<open>SystemExit\<close>), which an \<^verbatim>\<open>except Exception\<close> clause does not catch.
  The string of the last two is \<^verbatim>\<open>str(e)\<close> itself, whatever the class builds it from: a
  handler's \<^verbatim>\<open>KeyError('command')\<close> is \<open>OtherException\<close> with the text \<^verbatim>\<open>'command'\<close>, quotes
  included, since \<^verbatim>\<open>str\<close> of a \<^verbatim>\<open>KeyError\<close> is the \<^verbatim>\<open>repr\<close> of its key.
\<close>

datatype exn =
    ToolDenied string bool
  | OtherException string
  | BaseExceptionOnly string

fun isinstance_Exception :: "exn \<Rightarrow> bool" where
  "isinstance_Exception (BaseExceptionOnly s) = False"
| "isinstance_Exception e = True"

fun isinstance_ToolDenied :: "exn \<Rightarrow> bool" where
  "isinstance_ToolDenied (ToolDenied m i) = True"
| "isinstance_ToolDenied e = False"

text \<open>\<^verbatim>\<open>str(e)\<close>; \<^verbatim>\<open>ToolDenied.__init__\<close> passes its message to \<^verbatim>\<open>Exception.__init__\<close>.\<close>

fun str_exn :: "exn \<Rightarrow> string" where
  "str_exn (ToolDenied m i) = m"
| "str_exn (OtherException s) = s"
| "str_exn (BaseExceptionOnly s) = s"

text \<open>
  What a call of the modelled code ends with when it raises: the interpreter's
  \<^verbatim>\<open>AttributeError\<close> for an attribute that was never assigned (with the attribute's name),
  its \<^verbatim>\<open>KeyError\<close> for a key a dictionary lacks (with the key), pydantic's
  \<^verbatim>\<open>ValidationError\<close> (with the model's name), or an exception of user code that no
  \<^verbatim>\<open>except\<close> clause caught. The first three arise outside every \<^verbatim>\<open>try\<close> of the source, so
  their text is never taken.
\<close>

datatype raised =
    AttributeError string
  | KeyError string
  | ValidationError string
  | Uncaught exn

subsection \<open>Handlers and the registry (\<^verbatim>\<open>_tool_decorator.py\<close>)\<close>

text \<open>
  A handler is an async callable of the correlation id and the input. Awaiting it ends in
  one of three ways: it returns a string, it raises, or it is still parked on its own
  awaits. Effects of a handler on fields of the workflow other than the receiver's are
  outside the model.
\<close>

datatype handler_outcome =
    Returns string
  | Raises exn
  | StillAwaiting

type_synonym handler_fn = "string \<Rightarrow> pydict \<Rightarrow> handler_outcome"

datatype execution = Claude | Activity | Workflow

record ToolHandler =
  tool_name :: string
  execution :: execution
  handler :: handler_fn

text \<open>
  \<^verbatim>\<open>handlers: dict[str, ToolHandler]\<close>. A Python dict keeps insertion order and an
  assignment to a present key keeps the key's position: that is \<^const>\<open>AList.update\<close>.
\<close>

record ToolRegistry =
  handlers :: "(string \<times> ToolHandler) list"

definition register :: "ToolRegistry \<Rightarrow> string \<Rightarrow> handler_fn \<Rightarrow> execution \<Rightarrow> ToolRegistry" where
  "register registry name h e =
     registry\<lparr>handlers :=
       AList.update name \<lparr>ToolHandler.tool_name = name, execution = e, handler = h\<rparr>
         (handlers registry)\<rparr>"

definition registry_get :: "ToolRegistry \<Rightarrow> string \<Rightarrow> ToolHandler option" where
  "registry_get registry name = map_of (handlers registry) name"

definition has :: "ToolRegistry \<Rightarrow> string \<Rightarrow> bool" where
  "has registry name = (name \<in> set (map fst (handlers registry)))"

subsection \<open>Requests, results and the workflow instance (\<^verbatim>\<open>_workflow_helpers.py\<close>)\<close>

record ToolRequest =
  tool_id :: string
  tool_name :: string
  input :: pydict

record ToolResult =
  tool_id :: string
  success :: bool
  result :: "string option"
  error :: "string option"
  interrupt :: bool

text \<open>
  What \<^verbatim>\<open>getattr(workflow_instance, attr_name)\<close> gives for one name of \<^verbatim>\<open>dir(workflow_instance)\<close>:
  it raises, or it yields an object of which discovery reads \<^verbatim>\<open>callable(attr)\<close>, the two
  tags set by \<^verbatim>\<open>@claude_tool\<close> (absent when \<^verbatim>\<open>hasattr\<close> is false) and, for a handler, the bound
  method itself.
\<close>

record attr_value =
  is_callable :: bool
  claude_tool_name :: "string option"
  claude_tool_execution :: "execution option"
  bound_method :: handler_fn

datatype attr_access =
    GetattrRaises exn
  | GetattrOk attr_value

text \<open>
  The instance: \<^verbatim>\<open>id(self)\<close>, the attributes \<^verbatim>\<open>dir(self)\<close> lists in its order, and the eight
  attributes the mixin assigns. An attribute that has not been assigned yet is \<open>None\<close>
  (\<^verbatim>\<open>hasattr\<close> is false and reading it raises \<^verbatim>\<open>AttributeError\<close>). An \<^verbatim>\<open>asyncio.Event\<close> is its
  flag. \<^verbatim>\<open>_tool_registry\<close> is a reference to a registry object in the heap. Once assigned,
  the eight attributes are listed by \<^verbatim>\<open>dir\<close> too; none of them is callable, so discovery
  passes over them, and \<open>attrs\<close> holds the other names.
\<close>

record workflow_object =
  instance_id :: nat
  attrs :: "(string \<times> attr_access) list"
  claude_messages :: "pydict list option"
  claude_outgoing :: "string list option"
  claude_message_event :: "bool option"
  pending_tool_requests :: "ToolRequest list option"
  tool_results :: "(string \<rightharpoonup> ToolResult) option"
  tool_request_event :: "bool option"
  tool_result_events :: "(string \<rightharpoonup> bool) option"
  tool_registry :: "nat option"

text \<open>
  The world: the instance, the module-level table \<^verbatim>\<open>_WORKFLOW_TOOL_REGISTRY\<close> from instance
  ids to registry objects, and the store of registry objects. \<^verbatim>\<open>ToolRegistry()\<close> allocates
  at \<open>next_ref\<close>.
\<close>

record world =
  self :: workflow_object
  WORKFLOW_TOOL_REGISTRY :: "nat \<rightharpoonup> nat"
  heap :: "nat \<Rightarrow> ToolRegistry"
  next_ref :: nat

datatype 'a outcome =
    Returned 'a world
  | Raised raised world
  | Suspended world

text \<open>Sequencing: what follows a call runs only when the call returned.\<close>

fun bind :: "'a outcome \<Rightarrow> ('a \<Rightarrow> world \<Rightarrow> 'b outcome) \<Rightarrow> 'b outcome" where
  "bind (Returned x w) f = f x w"
| "bind (Raised e w) f = Raised e w"
| "bind (Suspended w) f = Suspended w"

subsection \<open>Discovery (\<^verbatim>\<open>_tool_decorator.py\<close>, lines 102-210)\<close>

definition get_tool_registry :: "workflow_object \<Rightarrow> world \<Rightarrow> nat \<times> world" where
  "get_tool_registry workflow_instance w =
     (case WORKFLOW_TOOL_REGISTRY w (instance_id workflow_instance) of
        None \<Rightarrow>
          (next_ref w,
           w\<lparr>WORKFLOW_TOOL_REGISTRY :=
               (WORKFLOW_TOOL_REGISTRY w)(instance_id workflow_instance \<mapsto> next_ref w),
             heap := (heap w)(next_ref w := \<lparr>handlers = []\<rparr>),
             next_ref := Suc (next_ref w)\<rparr>)
      | Some r \<Rightarrow> (r, w))"

definition clear_tool_registry :: "workflow_object \<Rightarrow> world \<Rightarrow> world" where
  "clear_tool_registry workflow_instance w =
     (if instance_id workflow_instance \<in> dom (WORKFLOW_TOOL_REGISTRY w)
      then w\<lparr>WORKFLOW_TOOL_REGISTRY :=
               (WORKFLOW_TOOL_REGISTRY w)(instance_id workflow_instance := None)\<rparr>
      else w)"

text \<open>
  The loop of \<^verbatim>\<open>register_tool_handlers\<close> over \<^verbatim>\<open>dir(workflow_instance)\<close>. The body is inside
  \<^verbatim>\<open>try ... except Exception: pass\<close>: an exception derived from \<^verbatim>\<open>Exception\<close> skips the
  attribute (also the \<^verbatim>\<open>AttributeError\<close> of reading \<^verbatim>\<open>_claude_tool_execution\<close> from an object
  that only has the name tag); any other exception leaves the loop. The registry is
  mutated in place, so it is returned in both cases.
\<close>

fun scan_attrs :: "(string \<times> attr_access) list \<Rightarrow> ToolRegistry \<Rightarrow> exn option \<times> ToolRegistry" where
  "scan_attrs [] registry = (None, registry)"
| "scan_attrs ((attr_name, GetattrRaises e) # rest) registry =
     (if isinstance_Exception e then scan_attrs rest registry else (Some e, registry))"
| "scan_attrs ((attr_name, GetattrOk attr) # rest) registry =
     (if is_callable attr \<and> claude_tool_name attr \<noteq> None then
        (case claude_tool_execution attr of
           None \<Rightarrow> scan_attrs rest registry
         | Some e \<Rightarrow>
             scan_attrs rest
               (register registry (the (claude_tool_name attr)) (bound_method attr) e))
      else scan_attrs rest registry)"

definition register_tool_handlers :: "workflow_object \<Rightarrow> world \<Rightarrow> nat outcome" where
  "register_tool_handlers workflow_instance w =
     (case get_tool_registry workflow_instance w of
        (r, w1) \<Rightarrow>
          (case scan_attrs (attrs workflow_instance) (heap w1 r) of
             (None, registry) \<Rightarrow> Returned r (w1\<lparr>heap := (heap w1)(r := registry)\<rparr>)
           | (Some e, registry) \<Rightarrow>
               Raised (Uncaught e) (w1\<lparr>heap := (heap w1)(r := registry)\<rparr>)))"

subsection \<open>The receiver mixin\<close>

definition init_claude_receiver :: "world \<Rightarrow> unit outcome" where
  "init_claude_receiver w =
     (let w1 = w\<lparr>self := (self w)\<lparr>
                 claude_messages := Some [],
                 claude_outgoing := Some [],
                 claude_message_event := Some False,
                 pending_tool_requests := Some [],
                 tool_results := Some Map.empty,
                 tool_request_event := Some False,
                 tool_result_events := Some Map.empty\<rparr>\<rparr>
      in bind (register_tool_handlers (self w1) w1)
           (\<lambda>r w2. Returned () (w2\<lparr>self := (self w2)\<lparr>tool_registry := Some r\<rparr>\<rparr>)))"

text \<open>
  The guard every entry point starts with: \<^verbatim>\<open>if not hasattr(self, "_x"): self.init_claude_receiver()\<close>.
  Its argument says whether the attribute the entry point tests is present.
\<close>

definition ensure_initialized :: "bool \<Rightarrow> world \<Rightarrow> unit outcome" where
  "ensure_initialized present w = (if present then Returned () w else init_claude_receiver w)"

definition receive_claude_message :: "pydict \<Rightarrow> world \<Rightarrow> unit outcome" where
  "receive_claude_message message w =
     bind (ensure_initialized (claude_messages (self w) \<noteq> None) w)
       (\<lambda>u w.
          case claude_messages (self w) of
            None \<Rightarrow> Raised (AttributeError ''_claude_messages'') w
          | Some msgs \<Rightarrow>
              (let w1 = w\<lparr>self := (self w)\<lparr>claude_messages := Some (msgs @ [message])\<rparr>\<rparr>
               in case claude_message_event (self w1) of
                    None \<Rightarrow> Raised (AttributeError ''_claude_message_event'') w1
                  | Some ev \<Rightarrow>
                      Returned () (w1\<lparr>self := (self w1)\<lparr>claude_message_event := Some True\<rparr>\<rparr>)))"

text \<open>
  \<^verbatim>\<open>wait_for_claude_messages\<close>: with the event set, both waits return at once. With the
  event clear, the wait without a timeout parks the caller; the wait with a timeout ends
  in \<^verbatim>\<open>asyncio.TimeoutError\<close>, which the source swallows.
\<close>

definition wait_for_claude_messages :: "real option \<Rightarrow> world \<Rightarrow> pydict list outcome" where
  "wait_for_claude_messages timeout w =
     bind (ensure_initialized (claude_messages (self w) \<noteq> None) w)
       (\<lambda>u w.
          case claude_message_event (self w) of
            None \<Rightarrow> Raised (AttributeError ''_claude_message_event'') w
          | Some ev \<Rightarrow>
              if \<not> ev \<and> timeout = None then Suspended w
              else
                (case claude_messages (self w) of
                   None \<Rightarrow> Raised (AttributeError ''_claude_messages'') w
                 | Some messages \<Rightarrow>
                     Returned messages
                       (w\<lparr>self := (self w)\<lparr>claude_messages := Some [],
                                            claude_message_event := Some False\<rparr>\<rparr>)))"

definition get_claude_messages :: "world \<Rightarrow> pydict list outcome" where
  "get_claude_messages w =
     bind (ensure_initialized (claude_messages (self w) \<noteq> None) w)
       (\<lambda>u w.
          case claude_messages (self w) of
            None \<Rightarrow> Raised (AttributeError ''_claude_messages'') w
          | Some messages \<Rightarrow>
              (let w1 = w\<lparr>self := (self w)\<lparr>claude_messages := Some []\<rparr>\<rparr>
               in case claude_message_event (self w1) of
                    None \<Rightarrow> Raised (AttributeError ''_claude_message_event'') w1
                  | Some ev \<Rightarrow>
                      Returned messages
                        (w1\<lparr>self := (self w1)\<lparr>claude_message_event := Some False\<rparr>\<rparr>)))"

definition get_and_consume_messages :: "world \<Rightarrow> string list outcome" where
  "get_and_consume_messages w =
     bind (ensure_initialized (claude_outgoing (self w) \<noteq> None) w)
       (\<lambda>u w.
          case claude_outgoing (self w) of
            None \<Rightarrow> Raised (AttributeError ''_claude_outgoing'') w
          | Some messages \<Rightarrow>
              Returned messages (w\<lparr>self := (self w)\<lparr>claude_outgoing := Some []\<rparr>\<rparr>))"

definition send_to_claude :: "string \<Rightarrow> world \<Rightarrow> unit outcome" where
  "send_to_claude message w =
     bind (ensure_initialized (claude_outgoing (self w) \<noteq> None) w)
       (\<lambda>u w.
          case claude_outgoing (self w) of
            None \<Rightarrow> Raised (AttributeError ''_claude_outgoing'') w
          | Some out \<Rightarrow>
              Returned () (w\<lparr>self := (self w)\<lparr>claude_outgoing := Some (out @ [message])\<rparr>\<rparr>))"

text \<open>The method \<^verbatim>\<open>ClaudeMessageReceiver.get_tool_registry\<close> (lines 165-173).\<close>

definition self_get_tool_registry :: "world \<Rightarrow> nat outcome" where
  "self_get_tool_registry w =
     (case tool_registry (self w) of
        None \<Rightarrow>
          bind (register_tool_handlers (self w) w)
            (\<lambda>r w1. Returned r (w1\<lparr>self := (self w1)\<lparr>tool_registry := Some r\<rparr>\<rparr>))
      | Some r \<Rightarrow> Returned r w)"

text \<open>
  \<^verbatim>\<open>ToolRequest.model_validate\<close> is pydantic's: the three fields are required, the two
  names must be strings and the input a dictionary; other keys are ignored.
\<close>

definition model_validate :: "pydict \<Rightarrow> ToolRequest option" where
  "model_validate request_dict =
     (case (map_of request_dict ''tool_id'', map_of request_dict ''tool_name'',
            map_of request_dict ''input'') of
        (Some (JStr i), Some (JStr n), Some (JDict d)) \<Rightarrow>
          Some \<lparr>ToolRequest.tool_id = i, tool_name = n, input = d\<rparr>
      | _ \<Rightarrow> None)"

text \<open>
  Lines 195-223 of \<^verbatim>\<open>request_tool_execution\<close>: the result the three branches and the
  two \<^verbatim>\<open>except\<close> clauses build from the looked-up handler.
\<close>

datatype dispatch_outcome =
    Completed ToolResult
  | Propagated exn
  | Pending

definition dispatch :: "ToolHandler option \<Rightarrow> ToolRequest \<Rightarrow> dispatch_outcome" where
  "dispatch h request =
     (case h of
        None \<Rightarrow>
          Completed \<lparr>ToolResult.tool_id = ToolRequest.tool_id request, success = False,
            result = None,
            error = Some (''No handler registered for tool: '' @ ToolRequest.tool_name request),
            interrupt = False\<rparr>
      | Some th \<Rightarrow>
          (case handler th (ToolRequest.tool_id request) (input request) of
             Returns output \<Rightarrow>
               Completed \<lparr>ToolResult.tool_id = ToolRequest.tool_id request, success = True,
                 result = Some output, error = None, interrupt = False\<rparr>
           | Raises (ToolDenied m i) \<Rightarrow>
               Completed \<lparr>ToolResult.tool_id = ToolRequest.tool_id request, success = False,
                 result = None, error = Some m, interrupt = i\<rparr>
           | Raises e \<Rightarrow>
               if isinstance_Exception e then
                 Completed \<lparr>ToolResult.tool_id = ToolRequest.tool_id request, success = False,
                   result = None, error = Some (str_exn e), interrupt = False\<rparr>
               else Propagated e
           | StillAwaiting \<Rightarrow> Pending))"

definition request_tool_execution :: "pydict \<Rightarrow> world \<Rightarrow> unit outcome" where
  "request_tool_execution request_dict w =
     bind (ensure_initialized (pending_tool_requests (self w) \<noteq> None) w)
       (\<lambda>u w.
          case model_validate request_dict of
            None \<Rightarrow> Raised (ValidationError ''ToolRequest'') w
          | Some request \<Rightarrow>
              (case tool_result_events (self w) of
                 None \<Rightarrow> Raised (AttributeError ''_tool_result_events'') w
               | Some evs \<Rightarrow>
                   bind (self_get_tool_registry
                          (w\<lparr>self := (self w)\<lparr>tool_result_events :=
                               Some (evs(ToolRequest.tool_id request \<mapsto> False))\<rparr>\<rparr>))
                     (\<lambda>r w2.
                        case dispatch (registry_get (heap w2 r) (ToolRequest.tool_name request))
                               request of
                          Pending \<Rightarrow> Suspended w2
                        | Propagated e \<Rightarrow> Raised (Uncaught e) w2
                        | Completed res \<Rightarrow>
                            (case tool_results (self w2) of
                               None \<Rightarrow> Raised (AttributeError ''_tool_results'') w2
                             | Some results \<Rightarrow>
                                 (let w3 = w2\<lparr>self := (self w2)\<lparr>tool_results :=
                                             Some (results(ToolRequest.tool_id request \<mapsto> res))\<rparr>\<rparr>
                                  in case tool_result_events (self w3) of
                                       None \<Rightarrow> Raised (AttributeError ''_tool_result_events'') w3
                                     | Some evs3 \<Rightarrow>
                                         (case evs3 (ToolRequest.tool_id request) of
                                            None \<Rightarrow>
                                              Raised (KeyError (ToolRequest.tool_id request)) w3
                                          | Some ev \<Rightarrow>
                                              Returned ()
                                                (w3\<lparr>self := (self w3)\<lparr>tool_result_events :=
                                                   Some (evs3(ToolRequest.tool_id request
                                                          \<mapsto> True))\<rparr>\<rparr>)))))))"

text \<open>
  \<^verbatim>\<open>get_tool_result\<close> returns \<^verbatim>\<open>model_dump()\<close> of a \<^verbatim>\<open>ToolResult\<close>, a dictionary with the
  same five fields; the model returns the record. The call parks when the id has an
  event that is not set.
\<close>

definition not_found :: "string \<Rightarrow> ToolResult" where
  "not_found tid =
     \<lparr>ToolResult.tool_id = tid, success = False, result = None,
      error = Some ''Tool result not found'', interrupt = False\<rparr>"

definition get_tool_result :: "string \<Rightarrow> world \<Rightarrow> ToolResult outcome" where
  "get_tool_result tid w =
     bind (ensure_initialized (tool_results (self w) \<noteq> None) w)
       (\<lambda>u w.
          case tool_result_events (self w) of
            None \<Rightarrow> Raised (AttributeError ''_tool_result_events'') w
          | Some evs \<Rightarrow>
              if evs tid = Some False then Suspended w
              else
                (case tool_results (self w) of
                   None \<Rightarrow> Raised (AttributeError ''_tool_results'') w
                 | Some results \<Rightarrow>
                     (let w1 = w\<lparr>self := (self w)\<lparr>tool_results := Some (results(tid := None))\<rparr>\<rparr>;
                          w2 = (if tid \<in> dom evs
                                then w1\<lparr>self := (self w1)\<lparr>tool_result_events :=
                                          Some (evs(tid := None))\<rparr>\<rparr>
                                else w1)
                      in case results tid of
                           None \<Rightarrow> Returned (not_found tid) w2
                         | Some res \<Rightarrow> Returned res w2)))"

definition get_registered_tools :: "world \<Rightarrow> string list outcome" where
  "get_registered_tools w =
     bind (self_get_tool_registry w) (\<lambda>r w1. Returned (map fst (handlers (heap w1 r))) w1)"

subsection \<open>Vocabulary of the statements\<close>

text \<open>
  The three changes the coordinator makes to the two dictionaries for one correlation id:
  line 189 creates the event, lines 226-227 store the result and set the event, lines
  249-251 remove both.
\<close>

definition accepted :: "string \<Rightarrow> world \<Rightarrow> world" where
  "accepted tid w =
     w\<lparr>self := (self w)\<lparr>
       tool_result_events :=
         map_option (\<lambda>evs. evs(tid \<mapsto> False)) (tool_result_events (self w))\<rparr>\<rparr>"

definition resolved :: "string \<Rightarrow> ToolResult \<Rightarrow> world \<Rightarrow> world" where
  "resolved tid res w =
     w\<lparr>self := (self w)\<lparr>
       tool_results := map_option (\<lambda>results. results(tid \<mapsto> res)) (tool_results (self w)),
       tool_result_events :=
         map_option (\<lambda>evs. evs(tid \<mapsto> True)) (tool_result_events (self w))\<rparr>\<rparr>"

definition consumed :: "string \<Rightarrow> world \<Rightarrow> world" where
  "consumed tid w =
     w\<lparr>self := (self w)\<lparr>
       tool_results := map_option (\<lambda>results. results(tid := None)) (tool_results (self w)),
       tool_result_events :=
         map_option (\<lambda>evs. evs(tid := None)) (tool_result_events (self w))\<rparr>\<rparr>"

text \<open>How \<^verbatim>\<open>request_tool_execution\<close> ends for each outcome of the dispatch.\<close>

fun complete_request :: "string \<Rightarrow> dispatch_outcome \<Rightarrow> world \<Rightarrow> unit outcome" where
  "complete_request tid (Completed res) w = Returned () (resolved tid res w)"
| "complete_request tid (Propagated e) w = Raised (Uncaught e) (accepted tid w)"
| "complete_request tid Pending w = Suspended (accepted tid w)"

text \<open>None of the seven attributes of \<^verbatim>\<open>init_claude_receiver\<close> has been assigned.\<close>

definition never_initialized :: "world \<Rightarrow> bool" where
  "never_initialized w \<longleftrightarrow>
     claude_messages (self w) = None \<and> claude_outgoing (self w) = None \<and>
     claude_message_event (self w) = None \<and> pending_tool_requests (self w) = None \<and>
     tool_results (self w) = None \<and> tool_request_event (self w) = None \<and>
     tool_result_events (self w) = None"

fun raises_AttributeError :: "'a outcome \<Rightarrow> bool" where
  "raises_AttributeError (Raised (AttributeError s) w) = True"
| "raises_AttributeError out = False"

text \<open>
  The handlers discovery is meant to find, in the order of \<^verbatim>\<open>dir\<close>: the accessible,
  callable attributes that carry both tags.
\<close>

fun tagged_handlers :: "(string \<times> attr_access) list \<Rightarrow> (string \<times> handler_fn \<times> execution) list" where
  "tagged_handlers [] = []"
| "tagged_handlers ((attr_name, GetattrRaises e) # rest) = tagged_handlers rest"
| "tagged_handlers ((attr_name, GetattrOk attr) # rest) =
     (if is_callable attr \<and> claude_tool_name attr \<noteq> None
           \<and> claude_tool_execution attr \<noteq> None
      then (the (claude_tool_name attr), bound_method attr, the (claude_tool_execution attr))
             # tagged_handlers rest
      else tagged_handlers rest)"

fun register_all :: "ToolRegistry \<Rightarrow> (string \<times> handler_fn \<times> execution) list \<Rightarrow> ToolRegistry" where
  "register_all registry [] = registry"
| "register_all registry ((name, h, e) # rest) = register_all (register registry name h e) rest"

fun accessible :: "string \<times> attr_access \<Rightarrow> bool" where
  "accessible (attr_name, GetattrRaises e) = False"
| "accessible (attr_name, GetattrOk attr) = True"

fun caught_if_raised :: "string \<times> attr_access \<Rightarrow> bool" where
  "caught_if_raised (attr_name, GetattrRaises e) = isinstance_Exception e"
| "caught_if_raised (attr_name, GetattrOk attr) = True"

subsection \<open>An example workflow\<close>

text \<open>
  A workflow class in the manner of \<^verbatim>\<open>Phase3ToolTestWorkflow\<close> of the tests: one handler
  tagged \<^verbatim>\<open>@claude_tool("Bash")\<close>, an untagged \<^verbatim>\<open>run\<close> method and a property that raises when
  read. The handler answers a few fixed commands in each of the ways a handler can end;
  on \<^verbatim>\<open>lookup\<close> it raises \<^verbatim>\<open>KeyError('command')\<close>, whose \<^verbatim>\<open>str\<close> is the key in quotes.
\<close>

definition handle_bash :: handler_fn where
  "handle_bash tid inp =
     (case map_of inp ''command'' of
        Some (JStr c) \<Rightarrow>
          if c = ''echo hi'' then Returns (''Simulated output: '' @ c)
          else if c = ''sleep'' then StillAwaiting
          else if c = ''cancel'' then Raises (BaseExceptionOnly ''CancelledError'')
          else if c = ''boom'' then Raises (OtherException ''boom'')
          else if c = ''lookup'' then Raises (OtherException (CHR 0x27 # ''command'' @ [CHR 0x27]))
          else if c = ''halt'' then Raises (ToolDenied ''Session aborted'' True)
          else Raises (ToolDenied ''Only echo commands are allowed'' False)
      | _ \<Rightarrow> Raises (ToolDenied ''Only echo commands are allowed'' False))"

definition example_attrs :: "(string \<times> attr_access) list" where
  "example_attrs =
     [(''broken_property'', GetattrRaises (OtherException ''not available'')),
      (''handle_bash'',
         GetattrOk \<lparr>is_callable = True, claude_tool_name = Some ''Bash'',
                    claude_tool_execution = Some Workflow, bound_method = handle_bash\<rparr>),
      (''run'',
         GetattrOk \<lparr>is_callable = True, claude_tool_name = None,
                    claude_tool_execution = None, bound_method = (\<lambda>tid inp. StillAwaiting)\<rparr>)]"

definition fresh_object :: workflow_object where
  "fresh_object =
     \<lparr>instance_id = 7, attrs = example_attrs,
      claude_messages = None, claude_outgoing = None, claude_message_event = None,
      pending_tool_requests = None, tool_results = None, tool_request_event = None,
      tool_result_events = None, tool_registry = None\<rparr>"

definition fresh_world :: world where
  "fresh_world =
     \<lparr>self = fresh_object, WORKFLOW_TOOL_REGISTRY = Map.empty,
      heap = (\<lambda>r. \<lparr>handlers = []\<rparr>), next_ref = 0\<rparr>"

text \<open>The world \<^verbatim>\<open>init_claude_receiver\<close> makes of \<open>fresh_world\<close>.\<close>

definition ready_world :: world where
  "ready_world =
     \<lparr>self = fresh_object\<lparr>
        claude_messages := Some [], claude_outgoing := Some [],
        claude_message_event := Some False, pending_tool_requests := Some [],
        tool_results := Some Map.empty, tool_request_event := Some False,
        tool_result_events := Some Map.empty, tool_registry := Some 0\<rparr>,
      WORKFLOW_TOOL_REGISTRY = [7 \<mapsto> 0],
      heap = (\<lambda>r. \<lparr>handlers = []\<rparr>)
               (0 := \<lparr>handlers =
                  [(''Bash'', \<lparr>ToolHandler.tool_name = ''Bash'', execution = Workflow,
                              handler = handle_bash\<rparr>)]\<rparr>),
      next_ref = 1\<rparr>"

definition bash_request :: "string \<Rightarrow> string \<Rightarrow> pydict" where
  "bash_request tid command =
     [(''tool_id'', JStr tid), (''tool_name'', JStr ''Bash''),
      (''input'', JDict [(''command'', JStr command)])]"

definition read_request :: "string \<Rightarrow> pydict" where
  "read_request tid =
     [(''tool_id'', JStr tid), (''tool_name'', JStr ''Read''),
      (''input'', JDict [(''file_path'', JStr ''notes.txt'')])]"

text \<open>The example class with one more property, whose getter leaves the interpreter.\<close>

definition aborting_object :: workflow_object where
  "aborting_object =
     fresh_object\<lparr>attrs := example_attrs
        @ [(''shutdown'', GetattrRaises (BaseExceptionOnly ''SystemExit''))]\<rparr>"

text \<open>
  The state \<^verbatim>\<open>init_claude_receiver\<close> establishes: the seven attributes at their initial
  values and the registry assigned.
\<close>

definition just_initialized :: "world \<Rightarrow> bool" where
  "just_initialized w \<longleftrightarrow>
     claude_messages (self w) = Some [] \<and> claude_outgoing (self w) = Some [] \<and>
     claude_message_event (self w) = Some False \<and> pending_tool_requests (self w) = Some [] \<and>
     tool_results (self w) = Some Map.empty \<and> tool_request_event (self w) = Some False \<and>
     tool_result_events (self w) = Some Map.empty \<and> tool_registry (self w) \<noteq> None"

section \<open>Properties\<close>

subsection \<open>The entry points on an instance that has its attributes\<close>

lemma request_tool_execution_ready:
  assumes "pending_tool_requests (self w) \<noteq> None"
    and "tool_result_events (self w) = Some evs"
    and "tool_results (self w) = Some results"
    and "tool_registry (self w) = Some r"
    and "model_validate request_dict = Some request"
  shows "request_tool_execution request_dict w =
           complete_request (ToolRequest.tool_id request)
             (dispatch (registry_get (heap w r) (ToolRequest.tool_name request)) request) w"
  using assms
  by (cases "dispatch (registry_get (heap w r) (ToolRequest.tool_name request)) request")
     (simp_all add: request_tool_execution_def ensure_initialized_def
        self_get_tool_registry_def resolved_def accepted_def)

lemma get_tool_result_ready:
  assumes "tool_results (self w) = Some results"
    and "tool_result_events (self w) = Some evs"
    and "evs tid \<noteq> Some False"
  shows "get_tool_result tid w =
           Returned (case results tid of None \<Rightarrow> not_found tid | Some res \<Rightarrow> res)
             (consumed tid w)"
  using assms
  by (cases "evs tid")
     (auto simp add: get_tool_result_def ensure_initialized_def Let_def fun_upd_idem domIff
        consumed_def split: option.splits)

lemma get_tool_result_pending:
  assumes "tool_results (self w) \<noteq> None"
    and "tool_result_events (self w) = Some evs"
    and "evs tid = Some False"
  shows "get_tool_result tid w = Suspended w"
  using assms by (simp add: get_tool_result_def ensure_initialized_def)

lemma consumed_resolved: "consumed tid (resolved tid res w) = consumed tid w"
  by (cases "tool_results (self w)"; cases "tool_result_events (self w)")
     (simp_all add: consumed_def resolved_def)

lemma consumed_absent:
  assumes "tool_results (self w) = Some results"
    and "tool_result_events (self w) = Some evs"
    and "results tid = None"
    and "evs tid = None"
  shows "consumed tid w = w"
proof -
  have "results(tid := None) = results" "evs(tid := None) = evs"
    using assms by (simp_all add: fun_upd_idem)
  then show ?thesis
    using assms by (simp add: consumed_def)
qed

text \<open>
  Claim C1. A request that \<^verbatim>\<open>request_tool_execution\<close> accepts and dispatches to a registered
  handler returning \<open>X\<close> completes and stores the success result; the first
  \<^verbatim>\<open>get_tool_result\<close> for its id returns \<open>success = True, result = X\<close> and removes both the
  stored result and the id's event; a second call for the id returns the not-found
  failure, so the result is delivered exactly once.
\<close>

theorem result_delivered_exactly_once:
  assumes "pending_tool_requests (self w) \<noteq> None"
    and "tool_result_events (self w) = Some evs"
    and "tool_results (self w) = Some results"
    and "tool_registry (self w) = Some r"
    and "model_validate request_dict = Some request"
    and "registry_get (heap w r) (ToolRequest.tool_name request) = Some th"
    and "handler th (ToolRequest.tool_id request) (input request) = Returns X"
  shows "let tid = ToolRequest.tool_id request;
             ok = \<lparr>ToolResult.tool_id = tid, success = True, result = Some X,
                   error = None, interrupt = False\<rparr>
         in request_tool_execution request_dict w = Returned () (resolved tid ok w)
          \<and> get_tool_result tid (resolved tid ok w) = Returned ok (consumed tid w)
          \<and> tool_results (self (consumed tid w)) = Some (results(tid := None))
          \<and> tool_result_events (self (consumed tid w)) = Some (evs(tid := None))
          \<and> get_tool_result tid (consumed tid w) = Returned (not_found tid) (consumed tid w)"
proof -
  let ?tid = "ToolRequest.tool_id request"
  let ?ok = "\<lparr>ToolResult.tool_id = ?tid, success = True, result = Some X,
               error = None, interrupt = False\<rparr>"
  have "dispatch (registry_get (heap w r) (ToolRequest.tool_name request)) request =
          Completed ?ok"
    using assms by (simp add: dispatch_def)
  then have req: "request_tool_execution request_dict w = Returned () (resolved ?tid ?ok w)"
    using assms by (simp add: request_tool_execution_ready)
  have "get_tool_result ?tid (resolved ?tid ?ok w) =
          Returned ?ok (consumed ?tid (resolved ?tid ?ok w))"
    using assms
    by (simp add: get_tool_result_ready [where results = "results(?tid \<mapsto> ?ok)"
          and evs = "evs(?tid \<mapsto> True)"] resolved_def)
  then have get1: "get_tool_result ?tid (resolved ?tid ?ok w) = Returned ?ok (consumed ?tid w)"
    by (simp add: consumed_resolved)
  have res: "tool_results (self (consumed ?tid w)) = Some (results(?tid := None))"
    and ev: "tool_result_events (self (consumed ?tid w)) = Some (evs(?tid := None))"
    using assms by (simp_all add: consumed_def)
  have "get_tool_result ?tid (consumed ?tid w) =
          Returned (not_found ?tid) (consumed ?tid (consumed ?tid w))"
    using res ev
    by (simp add: get_tool_result_ready [where results = "results(?tid := None)"
          and evs = "evs(?tid := None)"])
  moreover have "consumed ?tid (consumed ?tid w) = consumed ?tid w"
    using res ev
    by (intro consumed_absent [where results = "results(?tid := None)"
          and evs = "evs(?tid := None)"]) simp_all
  ultimately have get2:
    "get_tool_result ?tid (consumed ?tid w) = Returned (not_found ?tid) (consumed ?tid w)"
    by simp
  show ?thesis
    using req get1 res ev get2 by (simp add: Let_def)
qed

theorem result_delivered_exactly_once_witness:
  "request_tool_execution (bash_request ''t1'' ''echo hi'') ready_world =
     Returned ()
       (resolved ''t1''
          \<lparr>ToolResult.tool_id = ''t1'', success = True,
           result = Some ''Simulated output: echo hi'', error = None, interrupt = False\<rparr>
          ready_world)
   \<and> get_tool_result ''t1''
       (resolved ''t1''
          \<lparr>ToolResult.tool_id = ''t1'', success = True,
           result = Some ''Simulated output: echo hi'', error = None, interrupt = False\<rparr>
          ready_world) =
     Returned
       \<lparr>ToolResult.tool_id = ''t1'', success = True,
        result = Some ''Simulated output: echo hi'', error = None, interrupt = False\<rparr>
       (consumed ''t1'' ready_world)
   \<and> get_tool_result ''t1'' (consumed ''t1'' ready_world) =
     Returned (not_found ''t1'') (consumed ''t1'' ready_world)"
  using result_delivered_exactly_once [of ready_world Map.empty Map.empty 0
      "bash_request ''t1'' ''echo hi''"
      "\<lparr>ToolRequest.tool_id = ''t1'', tool_name = ''Bash'',
        input = [(''command'', JStr ''echo hi'')]\<rparr>"
      "\<lparr>ToolHandler.tool_name = ''Bash'', execution = Workflow, handler = handle_bash\<rparr>"
      "''Simulated output: echo hi''"]
  by (simp add: ready_world_def fresh_object_def bash_request_def model_validate_def
      registry_get_def handle_bash_def Let_def)

text \<open>
  Every \<^verbatim>\<open>get_tool_result\<close> call that returns leaves the id with neither a stored result nor
  an event.
\<close>

lemma bind_Returned:
  "bind m f = Returned x w \<Longrightarrow> \<exists>y w0. m = Returned y w0 \<and> f y w0 = Returned x w"
  by (cases m) simp_all

lemma get_tool_result_consumes:
  assumes "get_tool_result tid w0 = Returned res w"
  shows "\<exists>results evs. tool_results (self w) = Some results
           \<and> tool_result_events (self w) = Some evs
           \<and> results tid = None \<and> evs tid = None"
proof -
  from assms obtain u wa where
    "(case tool_result_events (self wa) of
            None \<Rightarrow> Raised (AttributeError ''_tool_result_events'') wa
          | Some evs \<Rightarrow>
              if evs tid = Some False then Suspended wa
              else
                (case tool_results (self wa) of
                   None \<Rightarrow> Raised (AttributeError ''_tool_results'') wa
                 | Some results \<Rightarrow>
                     (let w1 = wa\<lparr>self := (self wa)\<lparr>tool_results := Some (results(tid := None))\<rparr>\<rparr>;
                          w2 = (if tid \<in> dom evs
                                then w1\<lparr>self := (self w1)\<lparr>tool_result_events :=
                                          Some (evs(tid := None))\<rparr>\<rparr>
                                else w1)
                      in case results tid of
                           None \<Rightarrow> Returned (not_found tid) w2
                         | Some res \<Rightarrow> Returned res w2))) = Returned res w"
    unfolding get_tool_result_def by (blast dest: bind_Returned)
  then show ?thesis
    by (auto simp add: Let_def domIff split: option.splits if_splits)
qed

text \<open>
  Claim C2. For an id that has neither an event nor a stored result, because it was never
  accepted or because an earlier \<^verbatim>\<open>get_tool_result\<close> call returned for it, \<^verbatim>\<open>get_tool_result\<close>
  returns the failure result whose error is \<^verbatim>\<open>Tool result not found\<close>; the call returns
  (its outcome is not a suspension) and leaves the world as it was. The witness has a
  never-sent id, and an id whose result an earlier call consumed while another id's
  result is still stored.
\<close>

theorem unknown_id_not_found:
  assumes "(\<exists>results evs. tool_results (self w) = Some results
              \<and> tool_result_events (self w) = Some evs
              \<and> results tid = None \<and> evs tid = None)
         \<or> (\<exists>w0 res. get_tool_result tid w0 = Returned res w)"
  shows "get_tool_result tid w =
           Returned
             \<lparr>ToolResult.tool_id = tid, success = False, result = None,
              error = Some ''Tool result not found'', interrupt = False\<rparr> w"
proof -
  from assms obtain results evs where
    "tool_results (self w) = Some results" "tool_result_events (self w) = Some evs"
    "results tid = None" "evs tid = None"
    by (auto dest: get_tool_result_consumes)
  then show ?thesis
    by (simp add: get_tool_result_ready consumed_absent not_found_def)
qed

theorem unknown_id_not_found_witness:
  "get_tool_result ''never-sent'' ready_world =
     Returned
       \<lparr>ToolResult.tool_id = ''never-sent'', success = False, result = None,
        error = Some ''Tool result not found'', interrupt = False\<rparr> ready_world
   \<and> bind (request_tool_execution (bash_request ''t1'' ''echo hi'') ready_world) (\<lambda>u w1.
       bind (request_tool_execution (read_request ''t2'') w1) (\<lambda>u w2.
         bind (get_tool_result ''t1'' w2) (\<lambda>res. get_tool_result ''t1''))) =
     Returned
       \<lparr>ToolResult.tool_id = ''t1'', success = False, result = None,
        error = Some ''Tool result not found'', interrupt = False\<rparr>
       (resolved ''t2''
          \<lparr>ToolResult.tool_id = ''t2'', success = False, result = None,
           error = Some ''No handler registered for tool: Read'', interrupt = False\<rparr>
          ready_world)"
proof -
  let ?ok = "\<lparr>ToolResult.tool_id = ''t1'', success = True,
              result = Some ''Simulated output: echo hi'', error = None, interrupt = False\<rparr>"
  let ?missing = "\<lparr>ToolResult.tool_id = ''t2'', success = False, result = None,
                   error = Some ''No handler registered for tool: Read'', interrupt = False\<rparr>"
  let ?w1 = "resolved ''t1'' ?ok ready_world"
  let ?w2 = "resolved ''t2'' ?missing ?w1"
  let ?w3 = "resolved ''t2'' ?missing ready_world"
  have never: "get_tool_result ''never-sent'' ready_world =
     Returned
       \<lparr>ToolResult.tool_id = ''never-sent'', success = False, result = None,
        error = Some ''Tool result not found'', interrupt = False\<rparr> ready_world"
    by (rule unknown_id_not_found) (simp add: ready_world_def fresh_object_def)
  have r1: "request_tool_execution (bash_request ''t1'' ''echo hi'') ready_world =
              Returned () ?w1"
    by (simp add: request_tool_execution_ready [where evs = Map.empty and results = Map.empty
          and r = 0 and request = "\<lparr>ToolRequest.tool_id = ''t1'', tool_name = ''Bash'',
          input = [(''command'', JStr ''echo hi'')]\<rparr>"]
        ready_world_def fresh_object_def bash_request_def model_validate_def
        registry_get_def handle_bash_def dispatch_def)
  have r2: "request_tool_execution (read_request ''t2'') ?w1 = Returned () ?w2"
    by (simp add: request_tool_execution_ready [where evs = "[''t1'' \<mapsto> True]"
          and results = "[''t1'' \<mapsto> ?ok]"
          and r = 0 and request = "\<lparr>ToolRequest.tool_id = ''t2'', tool_name = ''Read'',
          input = [(''file_path'', JStr ''notes.txt'')]\<rparr>"]
        ready_world_def fresh_object_def read_request_def model_validate_def
        registry_get_def dispatch_def resolved_def)
  have "consumed ''t1'' ?w2 = ?w3"
    by (simp add: consumed_def resolved_def ready_world_def fresh_object_def fun_eq_iff)
  then have g1: "get_tool_result ''t1'' ?w2 = Returned ?ok ?w3"
    by (simp add: get_tool_result_ready [where evs = "[''t1'' \<mapsto> True, ''t2'' \<mapsto> True]"
          and results = "[''t1'' \<mapsto> ?ok, ''t2'' \<mapsto> ?missing]"]
        resolved_def ready_world_def fresh_object_def)
  then have "\<exists>w0 res. get_tool_result ''t1'' w0 = Returned res ?w3"
    by blast
  then have g2: "get_tool_result ''t1'' ?w3 =
     Returned
       \<lparr>ToolResult.tool_id = ''t1'', success = False, result = None,
        error = Some ''Tool result not found'', interrupt = False\<rparr> ?w3"
    by (intro unknown_id_not_found) simp
  show ?thesis
    using never r1 r2 g1 g2 by simp
qed

text \<open>
  On an instance whose \<^verbatim>\<open>_tool_registry\<close> attribute is set (by \<^verbatim>\<open>init_claude_receiver\<close> or an
  earlier registry access) \<^verbatim>\<open>get_registered_tools\<close> changes nothing: the instance, the module
  table and every registry are as before, and the value is the list of registered tool
  names in registration order.
\<close>

lemma get_registered_tools_pure_when_registry_set:
  assumes "tool_registry (self w) = Some r"
  shows "get_registered_tools w = Returned (map fst (handlers (heap w r))) w"
  using assms by (simp add: get_registered_tools_def self_get_tool_registry_def)

lemma get_registered_tools_ready_world:
  "get_registered_tools ready_world = Returned [''Bash''] ready_world"
  using get_registered_tools_pure_when_registry_set [of ready_world 0]
  by (simp add: ready_world_def fresh_object_def)

text \<open>
  Claim C3. The query \<^verbatim>\<open>get_registered_tools\<close> is to leave every field of the instance and
  every registry entry unchanged in every state. The code does not: the docstring of
  \<^verbatim>\<open>get_and_consume_messages\<close> says that a handler which mutates workflow state is an
  update and not a query, yet on an instance that has no \<^verbatim>\<open>_tool_registry\<close> this query
  goes through the guard of \<^verbatim>\<open>get_tool_registry\<close> and runs discovery. Evaluated on the
  fresh example instance: before the call the attribute is unset, the module table has
  no entry for the instance and the registry store is empty; the call returns the tool
  names and leaves a registry allocated, entered in the table, filled with the tagged
  handler, and assigned to the attribute.
\<close>

theorem get_registered_tools_mutates_fresh_instance:
  "get_registered_tools fresh_world =
     Returned [''Bash'']
       (ready_world\<lparr>self := fresh_object\<lparr>tool_registry := Some 0\<rparr>\<rparr>)
   \<and> tool_registry (self fresh_world) = None
   \<and> WORKFLOW_TOOL_REGISTRY fresh_world 7 = None
   \<and> handlers (heap fresh_world 0) = []
   \<and> get_registered_tools fresh_world \<noteq> Returned [''Bash''] fresh_world"
  by (simp add: get_registered_tools_def self_get_tool_registry_def fresh_world_def
      ready_world_def fresh_object_def register_tool_handlers_def get_tool_registry_def
      example_attrs_def register_def)

text \<open>
  Claim C4, as amended. When the dispatched handler raises an exception that derives
  from \<^verbatim>\<open>Exception\<close> and is not a \<^verbatim>\<open>ToolDenied\<close>, \<^verbatim>\<open>request_tool_execution\<close> returns normally and
  stores a result with \<open>success = False\<close>, the exception's \<^verbatim>\<open>str\<close> as error and
  \<open>interrupt = False\<close>. The witness has a handler raising \<^verbatim>\<open>Exception('boom')\<close> and one
  raising \<^verbatim>\<open>KeyError('command')\<close>, for which the stored text is the key in quotes.
\<close>

theorem handler_fault_becomes_failure:
  assumes "pending_tool_requests (self w) \<noteq> None"
    and "tool_result_events (self w) = Some evs"
    and "tool_results (self w) = Some results"
    and "tool_registry (self w) = Some r"
    and "model_validate request_dict = Some request"
    and "registry_get (heap w r) (ToolRequest.tool_name request) = Some th"
    and "handler th (ToolRequest.tool_id request) (input request) = Raises e"
    and "isinstance_Exception e"
    and "\<not> isinstance_ToolDenied e"
  shows "\<exists>msg. e = OtherException msg
           \<and> request_tool_execution request_dict w =
               Returned ()
                 (resolved (ToolRequest.tool_id request)
                    \<lparr>ToolResult.tool_id = ToolRequest.tool_id request, success = False,
                     result = None, error = Some msg, interrupt = False\<rparr> w)"
proof -
  from assms(8,9) obtain msg where e: "e = OtherException msg"
    by (cases e) simp_all
  with assms have "request_tool_execution request_dict w =
               Returned ()
                 (resolved (ToolRequest.tool_id request)
                    \<lparr>ToolResult.tool_id = ToolRequest.tool_id request, success = False,
                     result = None, error = Some msg, interrupt = False\<rparr> w)"
    by (simp add: request_tool_execution_ready dispatch_def)
  with e show ?thesis by blast
qed

theorem handler_fault_becomes_failure_witness:
  "request_tool_execution (bash_request ''t2'' ''boom'') ready_world =
     Returned ()
       (resolved ''t2''
          \<lparr>ToolResult.tool_id = ''t2'', success = False, result = None,
           error = Some ''boom'', interrupt = False\<rparr> ready_world)
   \<and> request_tool_execution (bash_request ''t7'' ''lookup'') ready_world =
     Returned ()
       (resolved ''t7''
          \<lparr>ToolResult.tool_id = ''t7'', success = False, result = None,
           error = Some (CHR 0x27 # ''command'' @ [CHR 0x27]), interrupt = False\<rparr>
          ready_world)"
  using handler_fault_becomes_failure [where w = ready_world and evs = Map.empty
      and results = Map.empty and r = 0
      and request_dict = "bash_request ''t2'' ''boom''"
      and request = "\<lparr>ToolRequest.tool_id = ''t2'', tool_name = ''Bash'',
        input = [(''command'', JStr ''boom'')]\<rparr>"
      and th = "\<lparr>ToolHandler.tool_name = ''Bash'', execution = Workflow,
        handler = handle_bash\<rparr>"
      and e = "OtherException ''boom''"]
    handler_fault_becomes_failure [where w = ready_world and evs = Map.empty
      and results = Map.empty and r = 0
      and request_dict = "bash_request ''t7'' ''lookup''"
      and request = "\<lparr>ToolRequest.tool_id = ''t7'', tool_name = ''Bash'',
        input = [(''command'', JStr ''lookup'')]\<rparr>"
      and th = "\<lparr>ToolHandler.tool_name = ''Bash'', execution = Workflow,
        handler = handle_bash\<rparr>"
      and e = "OtherException (CHR 0x27 # ''command'' @ [CHR 0x27])"]
  by (simp add: ready_world_def fresh_object_def bash_request_def model_validate_def
      registry_get_def handle_bash_def)

text \<open>
  A handler that is cancelled while it awaits raises \<^verbatim>\<open>asyncio.CancelledError\<close>, which
  derives from \<^verbatim>\<open>BaseException\<close> only: neither \<^verbatim>\<open>except\<close> clause catches it, the signal
  handler raises, and no result is stored for the id.
\<close>

theorem base_exception_propagates:
  "request_tool_execution (bash_request ''t3'' ''cancel'') ready_world =
     Raised (Uncaught (BaseExceptionOnly ''CancelledError'')) (accepted ''t3'' ready_world)
   \<and> tool_results (self (accepted ''t3'' ready_world)) = Some Map.empty"
  by (simp add: request_tool_execution_ready [where evs = Map.empty and results = Map.empty
        and r = 0 and request = "\<lparr>ToolRequest.tool_id = ''t3'', tool_name = ''Bash'',
        input = [(''command'', JStr ''cancel'')]\<rparr>"]
      ready_world_def fresh_object_def bash_request_def model_validate_def
      registry_get_def handle_bash_def dispatch_def accepted_def)

text \<open>
  Claim C5. When the dispatched handler raises \<^verbatim>\<open>ToolDenied(message, interrupt)\<close>, the
  stored result has \<open>success = False\<close>, the denial's message as error and the denial's
  interrupt flag; the witness is a denial with \<open>interrupt = True\<close>.
\<close>

theorem denial_becomes_failure:
  assumes "pending_tool_requests (self w) \<noteq> None"
    and "tool_result_events (self w) = Some evs"
    and "tool_results (self w) = Some results"
    and "tool_registry (self w) = Some r"
    and "model_validate request_dict = Some request"
    and "registry_get (heap w r) (ToolRequest.tool_name request) = Some th"
    and "handler th (ToolRequest.tool_id request) (input request) =
           Raises (ToolDenied message intr)"
  shows "request_tool_execution request_dict w =
           Returned ()
             (resolved (ToolRequest.tool_id request)
                \<lparr>ToolResult.tool_id = ToolRequest.tool_id request, success = False,
                 result = None, error = Some message, interrupt = intr\<rparr> w)"
  using assms by (simp add: request_tool_execution_ready dispatch_def)

theorem denial_becomes_failure_witness:
  "request_tool_execution (bash_request ''t4'' ''halt'') ready_world =
     Returned ()
       (resolved ''t4''
          \<lparr>ToolResult.tool_id = ''t4'', success = False, result = None,
           error = Some ''Session aborted'', interrupt = True\<rparr> ready_world)"
  using denial_becomes_failure [of ready_world Map.empty Map.empty 0
      "bash_request ''t4'' ''halt''"
      "\<lparr>ToolRequest.tool_id = ''t4'', tool_name = ''Bash'',
        input = [(''command'', JStr ''halt'')]\<rparr>"
      "\<lparr>ToolHandler.tool_name = ''Bash'', execution = Workflow, handler = handle_bash\<rparr>"
      "''Session aborted''" True]
  by (simp add: ready_world_def fresh_object_def bash_request_def model_validate_def
      registry_get_def handle_bash_def)

text \<open>
  Claim C6. A request whose tool name has no registered handler completes with a stored
  failure result whose error message contains the requested tool name.
\<close>

theorem missing_handler_names_the_tool:
  assumes "pending_tool_requests (self w) \<noteq> None"
    and "tool_result_events (self w) = Some evs"
    and "tool_results (self w) = Some results"
    and "tool_registry (self w) = Some r"
    and "model_validate request_dict = Some request"
    and "registry_get (heap w r) (ToolRequest.tool_name request) = None"
  shows "let res = \<lparr>ToolResult.tool_id = ToolRequest.tool_id request, success = False,
                    result = None,
                    error = Some (''No handler registered for tool: ''
                                  @ ToolRequest.tool_name request),
                    interrupt = False\<rparr>
         in request_tool_execution request_dict w =
              Returned () (resolved (ToolRequest.tool_id request) res w)
          \<and> \<not> success res
          \<and> (\<exists>before after.
                error res = Some (before @ ToolRequest.tool_name request @ after))"
proof -
  have "\<exists>before after. ''No handler registered for tool: '' @ ToolRequest.tool_name request =
          before @ ToolRequest.tool_name request @ after"
    by (intro exI [where x = "''No handler registered for tool: ''"] exI [where x = "[]"]) simp
  then show ?thesis
    using assms by (simp add: request_tool_execution_ready dispatch_def Let_def)
qed

theorem missing_handler_names_the_tool_witness:
  "request_tool_execution (read_request ''t5'') ready_world =
     Returned ()
       (resolved ''t5''
          \<lparr>ToolResult.tool_id = ''t5'', success = False, result = None,
           error = Some ''No handler registered for tool: Read'', interrupt = False\<rparr>
          ready_world)"
  using missing_handler_names_the_tool [of ready_world Map.empty Map.empty 0
      "read_request ''t5''"
      "\<lparr>ToolRequest.tool_id = ''t5'', tool_name = ''Read'',
        input = [(''file_path'', JStr ''notes.txt'')]\<rparr>"]
  by (simp add: ready_world_def fresh_object_def read_request_def model_validate_def
      registry_get_def Let_def)

lemma registry_get_register:
  "registry_get (register registry name h e) name' =
     (if name' = name then Some \<lparr>ToolHandler.tool_name = name, execution = e, handler = h\<rparr>
      else registry_get registry name')"
  by (simp add: registry_get_def register_def update_conv')

text \<open>
  Claim C7. Registration is last-writer-wins: after \<open>register name h1 m1\<close> and then
  \<open>register name h2 m2\<close>, \<open>registry_get\<close> gives the entry holding \<open>h2\<close>, and a request for
  that name sent to an instance whose registry was so updated invokes \<open>h2\<close> with the
  request's id and input: what the request stores or raises is what \<open>h2\<close> returned or
  raised there, and \<open>h1\<close> has no part in it.
\<close>

theorem registration_last_writer_wins:
  assumes "pending_tool_requests (self w) \<noteq> None"
    and "tool_result_events (self w) = Some evs"
    and "tool_results (self w) = Some results"
    and "tool_registry (self w) = Some r"
    and "model_validate request_dict = Some request"
    and "ToolRequest.tool_name request = name"
  shows "let tid = ToolRequest.tool_id request;
             w2 = w\<lparr>heap := (heap w)
                    (r := register (register (heap w r) name h1 m1) name h2 m2)\<rparr>
         in registry_get (register (register registry name h1 m1) name h2 m2) name =
              Some \<lparr>ToolHandler.tool_name = name, execution = m2, handler = h2\<rparr>
          \<and> request_tool_execution request_dict w2 =
              (case h2 tid (input request) of
                 Returns output \<Rightarrow>
                   Returned ()
                     (resolved tid
                        \<lparr>ToolResult.tool_id = tid, success = True, result = Some output,
                         error = None, interrupt = False\<rparr> w2)
               | Raises (ToolDenied message intr) \<Rightarrow>
                   Returned ()
                     (resolved tid
                        \<lparr>ToolResult.tool_id = tid, success = False, result = None,
                         error = Some message, interrupt = intr\<rparr> w2)
               | Raises (OtherException text) \<Rightarrow>
                   Returned ()
                     (resolved tid
                        \<lparr>ToolResult.tool_id = tid, success = False, result = None,
                         error = Some text, interrupt = False\<rparr> w2)
               | Raises (BaseExceptionOnly text) \<Rightarrow>
                   Raised (Uncaught (BaseExceptionOnly text)) (accepted tid w2)
               | StillAwaiting \<Rightarrow> Suspended (accepted tid w2))"
proof -
  let ?tid = "ToolRequest.tool_id request"
  let ?w2 = "w\<lparr>heap := (heap w)(r := register (register (heap w r) name h1 m1) name h2 m2)\<rparr>"
  have get: "registry_get (register (register registry name h1 m1) name h2 m2) name =
           Some \<lparr>ToolHandler.tool_name = name, execution = m2, handler = h2\<rparr>"
    for registry
    by (simp add: registry_get_register)
  have "request_tool_execution request_dict ?w2 =
          complete_request ?tid
            (dispatch (registry_get (heap ?w2 r) (ToolRequest.tool_name request)) request) ?w2"
    using assms by (intro request_tool_execution_ready) simp_all
  then have "request_tool_execution request_dict ?w2 =
          complete_request ?tid
            (dispatch (Some \<lparr>ToolHandler.tool_name = name, execution = m2, handler = h2\<rparr>)
               request) ?w2"
    using assms by (simp add: get)
  then have "request_tool_execution request_dict ?w2 =
              (case h2 ?tid (input request) of
                 Returns output \<Rightarrow>
                   Returned ()
                     (resolved ?tid
                        \<lparr>ToolResult.tool_id = ?tid, success = True, result = Some output,
                         error = None, interrupt = False\<rparr> ?w2)
               | Raises (ToolDenied message intr) \<Rightarrow>
                   Returned ()
                     (resolved ?tid
                        \<lparr>ToolResult.tool_id = ?tid, success = False, result = None,
                         error = Some message, interrupt = intr\<rparr> ?w2)
               | Raises (OtherException text) \<Rightarrow>
                   Returned ()
                     (resolved ?tid
                        \<lparr>ToolResult.tool_id = ?tid, success = False, result = None,
                         error = Some text, interrupt = False\<rparr> ?w2)
               | Raises (BaseExceptionOnly text) \<Rightarrow>
                   Raised (Uncaught (BaseExceptionOnly text)) (accepted ?tid ?w2)
               | StillAwaiting \<Rightarrow> Suspended (accepted ?tid ?w2))"
    by (simp add: dispatch_def split: handler_outcome.splits exn.splits)
  with get show ?thesis
    by (simp add: Let_def)
qed

theorem registration_last_writer_wins_witness:
  "request_tool_execution (bash_request ''t6'' ''anything'')
     (ready_world\<lparr>heap := (heap ready_world)
        (0 := register (register (heap ready_world 0) ''Bash''
                          (\<lambda>tid inp. Returns (''first handled '' @ tid)) Activity)
                ''Bash'' (\<lambda>tid inp. Returns (''second handled '' @ tid)) Workflow)\<rparr>) =
   Returned ()
     (resolved ''t6''
        \<lparr>ToolResult.tool_id = ''t6'', success = True, result = Some ''second handled t6'',
         error = None, interrupt = False\<rparr>
        (ready_world\<lparr>heap := (heap ready_world)
           (0 := register (register (heap ready_world 0) ''Bash''
                             (\<lambda>tid inp. Returns (''first handled '' @ tid)) Activity)
                   ''Bash'' (\<lambda>tid inp. Returns (''second handled '' @ tid)) Workflow)\<rparr>))"
  using registration_last_writer_wins [where w = ready_world and evs = Map.empty
      and results = Map.empty and r = 0
      and request_dict = "bash_request ''t6'' ''anything''"
      and request = "\<lparr>ToolRequest.tool_id = ''t6'', tool_name = ''Bash'',
        input = [(''command'', JStr ''anything'')]\<rparr>"
      and name = "''Bash''" and registry = "heap ready_world 0"
      and ?h1.0 = "\<lambda>tid inp. Returns (''first handled '' @ tid)" and ?m1.0 = Activity
      and ?h2.0 = "\<lambda>tid inp. Returns (''second handled '' @ tid)" and ?m2.0 = Workflow]
  by (simp add: ready_world_def fresh_object_def bash_request_def model_validate_def Let_def)

text \<open>
  Claim C8. Three messages delivered by \<^verbatim>\<open>receive_claude_message\<close> to an instance with an
  empty inbound buffer are returned by one \<^verbatim>\<open>wait_for_claude_messages\<close> call (with or
  without a timeout) in arrival order; the call empties the buffer, and a following call
  with timeout 0 returns the empty list instead of suspending.
\<close>

lemma receive_claude_message_ready:
  assumes "claude_messages (self w) = Some msgs"
    and "claude_message_event (self w) = Some ev"
  shows "receive_claude_message message w =
    Returned () (w\<lparr>self := (self w)\<lparr>claude_messages := Some (msgs @ [message]),
                                     claude_message_event := Some True\<rparr>\<rparr>)"
  using assms by (simp add: receive_claude_message_def ensure_initialized_def)

lemma wait_for_claude_messages_event_set:
  assumes "claude_messages (self w) = Some msgs"
    and "claude_message_event (self w) = Some True"
  shows "wait_for_claude_messages timeout w =
    Returned msgs (w\<lparr>self := (self w)\<lparr>claude_messages := Some [],
                                       claude_message_event := Some False\<rparr>\<rparr>)"
  using assms by (simp add: wait_for_claude_messages_def ensure_initialized_def)

lemma wait_for_claude_messages_timeout:
  assumes "claude_messages (self w) = Some msgs"
    and "claude_message_event (self w) \<noteq> None"
  shows "wait_for_claude_messages (Some t) w =
    Returned msgs (w\<lparr>self := (self w)\<lparr>claude_messages := Some [],
                                       claude_message_event := Some False\<rparr>\<rparr>)"
  using assms by (auto simp add: wait_for_claude_messages_def ensure_initialized_def)

theorem three_messages_drained_in_order:
  assumes "claude_messages (self w) = Some []"
    and "claude_message_event (self w) = Some ev"
  shows "let drained = w\<lparr>self := (self w)\<lparr>claude_messages := Some [],
                                          claude_message_event := Some False\<rparr>\<rparr>
         in bind (receive_claude_message m1 w) (\<lambda>u w1.
              bind (receive_claude_message m2 w1) (\<lambda>u w2.
                bind (receive_claude_message m3 w2) (\<lambda>u.
                  wait_for_claude_messages timeout))) = Returned [m1, m2, m3] drained
          \<and> claude_messages (self drained) = Some []
          \<and> wait_for_claude_messages (Some 0) drained = Returned [] drained"
  using assms
  by (simp add: receive_claude_message_ready wait_for_claude_messages_event_set
      wait_for_claude_messages_timeout Let_def)

theorem three_messages_drained_in_order_witness:
  "bind (receive_claude_message [(''type'', JStr ''system'')] ready_world) (\<lambda>u w1.
     bind (receive_claude_message [(''type'', JStr ''assistant'')] w1) (\<lambda>u w2.
       bind (receive_claude_message [(''type'', JStr ''result'')] w2) (\<lambda>u.
         wait_for_claude_messages None))) =
   Returned [[(''type'', JStr ''system'')], [(''type'', JStr ''assistant'')],
             [(''type'', JStr ''result'')]] ready_world
   \<and> wait_for_claude_messages (Some 0) ready_world = Returned [] ready_world"
  using three_messages_drained_in_order [of ready_world False
      "[(''type'', JStr ''system'')]" "[(''type'', JStr ''assistant'')]"
      "[(''type'', JStr ''result'')]" None]
  by (simp add: ready_world_def fresh_object_def Let_def)


subsection \<open>Discovery\<close>

lemma scan_attrs_caught:
  "list_all caught_if_raised as \<Longrightarrow>
     scan_attrs as registry = (None, register_all registry (tagged_handlers as))"
proof (induction as arbitrary: registry)
  case Nil
  then show ?case by simp
next
  case (Cons a as)
  obtain attr_name acc where a: "a = (attr_name, acc)" by (cases a)
  show ?case
  proof (cases acc)
    case (GetattrRaises e)
    with Cons a show ?thesis by simp
  next
    case (GetattrOk attr)
    with Cons a show ?thesis
      by (cases "claude_tool_execution attr") auto
  qed
qed

lemma tagged_handlers_filter_accessible:
  "tagged_handlers (filter accessible as) = tagged_handlers as"
proof (induction as)
  case Nil
  then show ?case by simp
next
  case (Cons a as)
  obtain attr_name acc where a: "a = (attr_name, acc)" by (cases a)
  with Cons show ?case by (cases acc) simp_all
qed

lemma caught_filter_accessible: "list_all caught_if_raised (filter accessible as)"
proof (induction as)
  case Nil
  then show ?case by simp
next
  case (Cons a as)
  obtain attr_name acc where a: "a = (attr_name, acc)" by (cases a)
  with Cons show ?case by (cases acc) simp_all
qed

lemma has_register: "has (register registry name h e) name' \<longleftrightarrow> name' = name \<or> has registry name'"
  by (auto simp add: has_def register_def update_keys)

lemma has_register_all_mono: "has registry name \<Longrightarrow> has (register_all registry hs) name"
  by (induction registry hs rule: register_all.induct) (simp_all add: has_register)

lemma has_register_all: "(name, h, e) \<in> set hs \<Longrightarrow> has (register_all registry hs) name"
  by (induction registry hs rule: register_all.induct)
     (auto simp add: has_register has_register_all_mono)

lemma tagged_handlers_member:
  assumes "(attr_name, GetattrOk attr) \<in> set as"
    and "is_callable attr"
    and "claude_tool_name attr \<noteq> None"
    and "claude_tool_execution attr \<noteq> None"
  shows "(the (claude_tool_name attr), bound_method attr, the (claude_tool_execution attr))
           \<in> set (tagged_handlers as)"
  using assms
proof (induction as)
  case Nil
  then show ?case by simp
next
  case (Cons a as)
  obtain attr_name' acc where a: "a = (attr_name', acc)" by (cases a)
  show ?case
  proof (cases acc)
    case (GetattrRaises x)
    with Cons a show ?thesis by auto
  next
    case (GetattrOk attr')
    with Cons a show ?thesis by auto
  qed
qed

text \<open>When several tagged attributes carry one tool name, the last in \<^verbatim>\<open>dir\<close> order stays.\<close>

lemma registry_get_register_all:
  "registry_get (register_all registry hs) name =
     (case filter (\<lambda>x. fst x = name) hs of
        [] \<Rightarrow> registry_get registry name
      | x # xs \<Rightarrow>
          Some \<lparr>ToolHandler.tool_name = name, execution = snd (snd (last (x # xs))),
                handler = fst (snd (last (x # xs)))\<rparr>)"
proof (induction registry hs rule: register_all.induct)
  case (1 registry)
  then show ?case by simp
next
  case (2 registry n h e rest)
  then show ?case
    by (cases "filter (\<lambda>x. fst x = name) rest")
       (auto simp add: registry_get_register)
qed

text \<open>
  Claim C9, as amended. When every exception that reading an attribute raises derives
  from \<^verbatim>\<open>Exception\<close>, \<^verbatim>\<open>register_tool_handlers\<close> returns normally, with the instance's registry
  extended by the tagged handlers in \<^verbatim>\<open>dir\<close> order; the attributes that raise are skipped
  (the scan equals the scan of the accessible attributes alone); every accessible
  callable attribute carrying both tags has its tool name in the resulting registry; and
  the entry under a tool name is that of the last such attribute in \<^verbatim>\<open>dir\<close> order (the
  earlier entry stays when no attribute carries the name).
\<close>

theorem discovery_skips_caught_faults:
  assumes "list_all caught_if_raised (attrs workflow_instance)"
  shows "register_tool_handlers workflow_instance w =
           (case get_tool_registry workflow_instance w of
              (r, w1) \<Rightarrow>
                Returned r
                  (w1\<lparr>heap := (heap w1)
                     (r := register_all (heap w1 r)
                             (tagged_handlers (attrs workflow_instance)))\<rparr>))
       \<and> scan_attrs (attrs workflow_instance) registry =
           scan_attrs (filter accessible (attrs workflow_instance)) registry
       \<and> (\<forall>attr_name attr.
            (attr_name, GetattrOk attr) \<in> set (attrs workflow_instance)
              \<and> is_callable attr \<and> claude_tool_name attr \<noteq> None
              \<and> claude_tool_execution attr \<noteq> None \<longrightarrow>
            has (register_all registry (tagged_handlers (attrs workflow_instance)))
              (the (claude_tool_name attr)))
       \<and> (\<forall>name.
            registry_get (register_all registry (tagged_handlers (attrs workflow_instance)))
              name =
            (case filter (\<lambda>x. fst x = name) (tagged_handlers (attrs workflow_instance)) of
               [] \<Rightarrow> registry_get registry name
             | x # xs \<Rightarrow>
                 Some \<lparr>ToolHandler.tool_name = name,
                       execution = snd (snd (last (x # xs))),
                       handler = fst (snd (last (x # xs)))\<rparr>))"
proof (intro conjI allI impI)
  show "register_tool_handlers workflow_instance w =
           (case get_tool_registry workflow_instance w of
              (r, w1) \<Rightarrow>
                Returned r
                  (w1\<lparr>heap := (heap w1)
                     (r := register_all (heap w1 r)
                             (tagged_handlers (attrs workflow_instance)))\<rparr>))"
    using assms
    by (simp add: register_tool_handlers_def scan_attrs_caught split: prod.splits)
next
  show "scan_attrs (attrs workflow_instance) registry =
           scan_attrs (filter accessible (attrs workflow_instance)) registry"
    using assms
    by (simp add: scan_attrs_caught caught_filter_accessible tagged_handlers_filter_accessible)
next
  fix attr_name attr
  assume "(attr_name, GetattrOk attr) \<in> set (attrs workflow_instance)
            \<and> is_callable attr \<and> claude_tool_name attr \<noteq> None
            \<and> claude_tool_execution attr \<noteq> None"
  then have "(the (claude_tool_name attr), bound_method attr, the (claude_tool_execution attr))
               \<in> set (tagged_handlers (attrs workflow_instance))"
    by (intro tagged_handlers_member [where attr_name = attr_name]) simp_all
  then show "has (register_all registry (tagged_handlers (attrs workflow_instance)))
               (the (claude_tool_name attr))"
    by (rule has_register_all)
next
  fix name
  show "registry_get (register_all registry (tagged_handlers (attrs workflow_instance)))
              name =
            (case filter (\<lambda>x. fst x = name) (tagged_handlers (attrs workflow_instance)) of
               [] \<Rightarrow> registry_get registry name
             | x # xs \<Rightarrow>
                 Some \<lparr>ToolHandler.tool_name = name,
                       execution = snd (snd (last (x # xs))),
                       handler = fst (snd (last (x # xs)))\<rparr>)"
    by (rule registry_get_register_all)
qed

theorem discovery_skips_caught_faults_witness:
  "register_tool_handlers fresh_object fresh_world =
     Returned 0 (ready_world\<lparr>self := fresh_object\<rparr>)
   \<and> has (heap ready_world 0) ''Bash''
   \<and> registry_get (heap ready_world 0) ''Bash'' =
       Some \<lparr>ToolHandler.tool_name = ''Bash'', execution = Workflow, handler = handle_bash\<rparr>"
  using discovery_skips_caught_faults [of fresh_object fresh_world "\<lparr>handlers = []\<rparr>"]
  by (simp add: fresh_object_def fresh_world_def ready_world_def example_attrs_def
      get_tool_registry_def register_def has_def registry_get_def)

text \<open>
  A property whose getter raises \<^verbatim>\<open>SystemExit\<close> is not covered by \<^verbatim>\<open>except Exception\<close>:
  discovery raises, after the registry was created and the earlier handler registered.
\<close>

theorem discovery_aborted_by_base_exception:
  "register_tool_handlers aborting_object fresh_world =
     Raised (Uncaught (BaseExceptionOnly ''SystemExit''))
       (ready_world\<lparr>self := fresh_object\<rparr>)"
  by (simp add: register_tool_handlers_def get_tool_registry_def aborting_object_def
      fresh_object_def fresh_world_def ready_world_def example_attrs_def register_def)

subsection \<open>Lazy initialisation\<close>

lemma scan_attrs_error:
  "scan_attrs as registry = (Some e, registry') \<Longrightarrow> \<not> isinstance_Exception e"
proof (induction as arbitrary: registry)
  case Nil
  then show ?case by simp
next
  case (Cons a as)
  obtain attr_name acc where a: "a = (attr_name, acc)" by (cases a)
  show ?case
  proof (cases acc)
    case (GetattrRaises x)
    with Cons a show ?thesis by (auto split: if_splits)
  next
    case (GetattrOk attr)
    with Cons a show ?thesis by (auto split: if_splits option.splits)
  qed
qed

lemma get_tool_registry_keeps_instance:
  "self (snd (get_tool_registry workflow_instance w)) = self w"
  by (simp add: get_tool_registry_def split: option.splits)

lemma register_tool_handlers_cases:
  obtains (returned) r w' where "register_tool_handlers workflow_instance w = Returned r w'"
      and "self w' = self w"
    | (raised) e w' where "register_tool_handlers workflow_instance w = Raised (Uncaught e) w'"
      and "\<not> isinstance_Exception e"
proof (cases "get_tool_registry workflow_instance w")
  case (Pair r w1)
  then have w1: "self w1 = self w"
    using get_tool_registry_keeps_instance [of workflow_instance w] by simp
  show ?thesis
  proof (cases "scan_attrs (attrs workflow_instance) (heap w1 r)")
    case (Pair err registry)
    show ?thesis
    proof (cases err)
      case None
      with Pair \<open>get_tool_registry workflow_instance w = (r, w1)\<close> w1 show ?thesis
        by (intro returned [of r "w1\<lparr>heap := (heap w1)(r := registry)\<rparr>"])
           (simp_all add: register_tool_handlers_def)
    next
      case (Some e)
      with Pair have "\<not> isinstance_Exception e"
        by (auto dest: scan_attrs_error)
      with Some Pair \<open>get_tool_registry workflow_instance w = (r, w1)\<close> show ?thesis
        by (intro raised [of e "w1\<lparr>heap := (heap w1)(r := registry)\<rparr>"])
           (simp_all add: register_tool_handlers_def)
    qed
  qed
qed

text \<open>
  \<^verbatim>\<open>init_claude_receiver\<close> either returns, leaving the seven attributes at their initial
  values and the registry assigned, or passes on an exception of discovery that does not
  derive from \<^verbatim>\<open>Exception\<close>.
\<close>

lemma init_claude_receiver_cases:
  obtains (returned) w' where "init_claude_receiver w = Returned () w'" and "just_initialized w'"
    | (raised) e w' where "init_claude_receiver w = Raised (Uncaught e) w'"
      and "\<not> isinstance_Exception e"
proof -
  let ?w1 = "w\<lparr>self := (self w)\<lparr>
                 claude_messages := Some [],
                 claude_outgoing := Some [],
                 claude_message_event := Some False,
                 pending_tool_requests := Some [],
                 tool_results := Some Map.empty,
                 tool_request_event := Some False,
                 tool_result_events := Some Map.empty\<rparr>\<rparr>"
  show ?thesis
  proof (cases rule: register_tool_handlers_cases [of "self ?w1" ?w1])
    case (returned r w')
    then show ?thesis
      by (intro that(1) [of "w'\<lparr>self := (self w')\<lparr>tool_registry := Some r\<rparr>\<rparr>"])
         (simp_all add: init_claude_receiver_def just_initialized_def)
  next
    case (raised e w')
    then show ?thesis
      by (intro that(2) [of e w']) (simp_all add: init_claude_receiver_def)
  qed
qed

lemma complete_request_no_AttributeError:
  "\<not> raises_AttributeError (complete_request tid d w)"
  by (cases d) simp_all

lemma request_tool_execution_just_initialized:
  assumes "just_initialized w"
  shows "\<not> raises_AttributeError (request_tool_execution request_dict w)"
proof (cases "model_validate request_dict")
  case None
  with assms show ?thesis
    by (simp add: request_tool_execution_def ensure_initialized_def just_initialized_def)
next
  case (Some request)
  from assms obtain r where "tool_registry (self w) = Some r"
    by (auto simp add: just_initialized_def)
  with assms Some show ?thesis
    by (simp add: request_tool_execution_ready [where evs = Map.empty and results = Map.empty]
        just_initialized_def complete_request_no_AttributeError)
qed

text \<open>
  Claim C10. On an instance on which \<^verbatim>\<open>init_claude_receiver\<close> never ran, each of the seven
  entry points does exactly what it does when called right after \<^verbatim>\<open>init_claude_receiver\<close>
  (it runs the initialisation first), and none of them raises \<^verbatim>\<open>AttributeError\<close>.
\<close>

theorem entry_points_initialize_lazily:
  assumes "never_initialized w"
  shows "receive_claude_message message w =
           bind (init_claude_receiver w) (\<lambda>u. receive_claude_message message)
       \<and> wait_for_claude_messages timeout w =
           bind (init_claude_receiver w) (\<lambda>u. wait_for_claude_messages timeout)
       \<and> get_claude_messages w = bind (init_claude_receiver w) (\<lambda>u. get_claude_messages)
       \<and> get_and_consume_messages w =
           bind (init_claude_receiver w) (\<lambda>u. get_and_consume_messages)
       \<and> send_to_claude text w = bind (init_claude_receiver w) (\<lambda>u. send_to_claude text)
       \<and> request_tool_execution request_dict w =
           bind (init_claude_receiver w) (\<lambda>u. request_tool_execution request_dict)
       \<and> get_tool_result tid w = bind (init_claude_receiver w) (\<lambda>u. get_tool_result tid)
       \<and> \<not> raises_AttributeError (receive_claude_message message w)
       \<and> \<not> raises_AttributeError (wait_for_claude_messages timeout w)
       \<and> \<not> raises_AttributeError (get_claude_messages w)
       \<and> \<not> raises_AttributeError (get_and_consume_messages w)
       \<and> \<not> raises_AttributeError (send_to_claude text w)
       \<and> \<not> raises_AttributeError (request_tool_execution request_dict w)
       \<and> \<not> raises_AttributeError (get_tool_result tid w)"
proof (cases rule: init_claude_receiver_cases [of w])
  case (returned w')
  have eqs:
    "receive_claude_message message w = receive_claude_message message w'"
    "wait_for_claude_messages timeout w = wait_for_claude_messages timeout w'"
    "get_claude_messages w = get_claude_messages w'"
    "get_and_consume_messages w = get_and_consume_messages w'"
    "send_to_claude text w = send_to_claude text w'"
    "request_tool_execution request_dict w = request_tool_execution request_dict w'"
    "get_tool_result tid w = get_tool_result tid w'"
    using assms returned
    by (simp_all add: never_initialized_def just_initialized_def ensure_initialized_def
        receive_claude_message_def wait_for_claude_messages_def get_claude_messages_def
        get_and_consume_messages_def send_to_claude_def request_tool_execution_def
        get_tool_result_def)
  have safe:
    "\<not> raises_AttributeError (receive_claude_message message w')"
    "\<not> raises_AttributeError (wait_for_claude_messages timeout w')"
    "\<not> raises_AttributeError (get_claude_messages w')"
    "\<not> raises_AttributeError (get_and_consume_messages w')"
    "\<not> raises_AttributeError (send_to_claude text w')"
    "\<not> raises_AttributeError (get_tool_result tid w')"
    using returned
    by (simp_all add: just_initialized_def ensure_initialized_def
        receive_claude_message_def wait_for_claude_messages_def get_claude_messages_def
        get_and_consume_messages_def send_to_claude_def get_tool_result_def Let_def)
  have "\<not> raises_AttributeError (request_tool_execution request_dict w')"
    using returned by (simp add: request_tool_execution_just_initialized)
  with eqs safe returned show ?thesis
    by simp
next
  case (raised e w')
  with assms show ?thesis
    by (simp add: never_initialized_def ensure_initialized_def
        receive_claude_message_def wait_for_claude_messages_def get_claude_messages_def
        get_and_consume_messages_def send_to_claude_def request_tool_execution_def
        get_tool_result_def)
qed

theorem entry_points_initialize_lazily_witness:
  "receive_claude_message [(''type'', JStr ''system'')] fresh_world =
     Returned ()
       (ready_world\<lparr>self := (self ready_world)\<lparr>
          claude_messages := Some [[(''type'', JStr ''system'')]],
          claude_message_event := Some True\<rparr>\<rparr>)
   \<and> wait_for_claude_messages (Some 0) fresh_world = Returned [] ready_world
   \<and> get_claude_messages fresh_world = Returned [] ready_world
   \<and> get_and_consume_messages fresh_world = Returned [] ready_world
   \<and> send_to_claude ''hello'' fresh_world =
       Returned () (ready_world\<lparr>self := (self ready_world)\<lparr>claude_outgoing := Some [''hello'']\<rparr>\<rparr>)
   \<and> request_tool_execution (bash_request ''t1'' ''echo hi'') fresh_world =
       Returned ()
         (resolved ''t1''
            \<lparr>ToolResult.tool_id = ''t1'', success = True,
             result = Some ''Simulated output: echo hi'', error = None, interrupt = False\<rparr>
            ready_world)
   \<and> get_tool_result ''t1'' fresh_world = Returned (not_found ''t1'') ready_world"
proof -
  have init: "init_claude_receiver fresh_world = Returned () ready_world"
    by (simp add: init_claude_receiver_def fresh_world_def ready_world_def fresh_object_def
        register_tool_handlers_def get_tool_registry_def example_attrs_def register_def)
  have fresh: "never_initialized fresh_world"
    by (simp add: never_initialized_def fresh_world_def fresh_object_def)
  have ready:
    "receive_claude_message [(''type'', JStr ''system'')] ready_world =
       Returned ()
         (ready_world\<lparr>self := (self ready_world)\<lparr>
            claude_messages := Some [[(''type'', JStr ''system'')]],
            claude_message_event := Some True\<rparr>\<rparr>)"
    "wait_for_claude_messages (Some 0) ready_world = Returned [] ready_world"
    "get_claude_messages ready_world = Returned [] ready_world"
    "get_and_consume_messages ready_world = Returned [] ready_world"
    "send_to_claude ''hello'' ready_world =
       Returned () (ready_world\<lparr>self := (self ready_world)\<lparr>claude_outgoing := Some [''hello'']\<rparr>\<rparr>)"
    "get_tool_result ''t1'' ready_world = Returned (not_found ''t1'') ready_world"
    by (simp_all add: ready_world_def fresh_object_def ensure_initialized_def
        receive_claude_message_def wait_for_claude_messages_def get_claude_messages_def
        get_and_consume_messages_def send_to_claude_def get_tool_result_def Let_def)
  have req: "request_tool_execution (bash_request ''t1'' ''echo hi'') ready_world =
       Returned ()
         (resolved ''t1''
            \<lparr>ToolResult.tool_id = ''t1'', success = True,
             result = Some ''Simulated output: echo hi'', error = None, interrupt = False\<rparr>
            ready_world)"
    by (simp add: request_tool_execution_ready [where evs = Map.empty and results = Map.empty
          and r = 0 and request = "\<lparr>ToolRequest.tool_id = ''t1'', tool_name = ''Bash'',
          input = [(''command'', JStr ''echo hi'')]\<rparr>"]
        ready_world_def fresh_object_def bash_request_def model_validate_def
        registry_get_def handle_bash_def dispatch_def)
  show ?thesis
    using entry_points_initialize_lazily [OF fresh,
        of "[(''type'', JStr ''system'')]" "Some 0" "''hello''"
           "bash_request ''t1'' ''echo hi''" "''t1''"]
      init ready req
    by simp
qed


end
